theory Spec2Isabelle
  imports Complex_Main "HOL-Library.Word"
begin

section \<open>Samples, errors and the numpy primitives the generator uses\<close>

text \<open>
  The generator (\<^verbatim>\<open>meditation_generator.py\<close>) computes on numpy arrays of floating-point
  samples. A sample is modelled as a real number or one of the three non-finite values a
  numpy division can produce; rounding is not modelled, and the two signed zeros are one
  value \<open>Fin 0\<close>.
\<close>

datatype npfloat = Fin real | PInf | NInf | NaN

text \<open>
  The exceptions of the Python program are values: \<open>ValueError\<close> and \<open>KeyError\<close> carry the
  message or key, \<open>UnboundLocalError\<close> the name of the unbound variable, and
  \<open>EngineFailure\<close> stands for any failure raised inside an imported engine (room
  acoustics, rotation, text to speech, decoder).
\<close>

datatype error =
    ValueError string
  | KeyError string
  | UnboundLocalError string
  | EngineFailure string

fun is_finite :: "npfloat \<Rightarrow> bool" where
  "is_finite (Fin x) = True"
| "is_finite PInf = False"
| "is_finite NInf = False"
| "is_finite NaN = False"

fun np_abs :: "npfloat \<Rightarrow> npfloat" where
  "np_abs (Fin x) = Fin \<bar>x\<bar>"
| "np_abs PInf = PInf"
| "np_abs NInf = PInf"
| "np_abs NaN = NaN"

fun np_add :: "npfloat \<Rightarrow> npfloat \<Rightarrow> npfloat" where
  "np_add NaN b = NaN"
| "np_add a NaN = NaN"
| "np_add (Fin x) (Fin y) = Fin (x + y)"
| "np_add PInf NInf = NaN"
| "np_add NInf PInf = NaN"
| "np_add PInf b = PInf"
| "np_add NInf b = NInf"
| "np_add (Fin x) b = b"

text \<open>Multiplication of a sample by a finite Python float (a gain).\<close>

fun np_scale :: "npfloat \<Rightarrow> real \<Rightarrow> npfloat" where
  "np_scale (Fin x) c = Fin (x * c)"
| "np_scale NaN c = NaN"
| "np_scale PInf c = (if c = 0 then NaN else if 0 < c then PInf else NInf)"
| "np_scale NInf c = (if c = 0 then NaN else if 0 < c then NInf else PInf)"

text \<open>
  Division as numpy performs it: a zero divisor raises nothing (numpy only emits a
  warning) and yields \<open>NaN\<close> for \<open>0/0\<close> and an infinity otherwise. The only divisors of
  the program are results of \<^verbatim>\<open>np.max(np.abs(...))\<close>, so a zero divisor is the positive
  zero.
\<close>

fun np_div :: "npfloat \<Rightarrow> npfloat \<Rightarrow> npfloat" where
  "np_div NaN b = NaN"
| "np_div a NaN = NaN"
| "np_div (Fin x) (Fin y) =
     (if y = 0 then (if x = 0 then NaN else if 0 < x then PInf else NInf)
      else Fin (x / y))"
| "np_div (Fin x) b = Fin 0"
| "np_div a (Fin y) =
     (if 0 \<le> y then a else (case a of PInf \<Rightarrow> NInf | NInf \<Rightarrow> PInf | _ \<Rightarrow> a))"
| "np_div a b = NaN"

text \<open>\<^verbatim>\<open>np.maximum\<close>: the larger of two samples, \<open>NaN\<close> if either is \<open>NaN\<close>.\<close>

fun np_maximum :: "npfloat \<Rightarrow> npfloat \<Rightarrow> npfloat" where
  "np_maximum NaN b = NaN"
| "np_maximum a NaN = NaN"
| "np_maximum PInf b = PInf"
| "np_maximum a PInf = PInf"
| "np_maximum NInf b = b"
| "np_maximum a NInf = a"
| "np_maximum (Fin x) (Fin y) = Fin (max x y)"

text \<open>
  \<^verbatim>\<open>np.max\<close> of the flattened array: it raises \<^verbatim>\<open>ValueError\<close> on an array with no
  element.
\<close>

definition np_max :: "npfloat list \<Rightarrow> error + npfloat" where
  "np_max xs =
     (case xs of
        [] \<Rightarrow> Inl (ValueError ''zero-size array to reduction operation maximum which has no identity'')
      | x # rest \<Rightarrow> Inr (foldl np_maximum x rest))"

text \<open>Python's \<^verbatim>\<open>int(x)\<close> on a float: truncation towards zero.\<close>

definition py_int :: "real \<Rightarrow> int" where
  "py_int x = (if 0 \<le> x then \<lfloor>x\<rfloor> else \<lceil>x\<rceil>)"

text \<open>
  \<^verbatim>\<open>np.linspace(start, stop, num)\<close> with the end point included: \<open>num\<close> points, the
  step being \<open>(stop - start) / (num - 1)\<close>; one point is \<open>start\<close>; a negative \<open>num\<close>
  raises \<^verbatim>\<open>ValueError\<close>.
\<close>

definition np_linspace :: "real \<Rightarrow> real \<Rightarrow> int \<Rightarrow> error + real list" where
  "np_linspace start stop num =
     (if num < 0 then Inl (ValueError ''Number of samples must be non-negative'')
      else if num = 1 then Inr [start]
      else Inr (map (\<lambda>i. start + real i * ((stop - start) / real (nat num - 1))) [0..<nat num]))"

subsection \<open>Stereo buffers\<close>

text \<open>
  A stereo buffer is a numpy array of shape \<open>(n, 2)\<close>: a list of frames, one pair of
  samples per sample instant. A mono signal is a one-dimensional array.
\<close>

type_synonym signal = "npfloat list"
type_synonym frame = "npfloat \<times> npfloat"
type_synonym stereo = "frame list"

definition flatten :: "stereo \<Rightarrow> npfloat list" where
  "flatten b = concat (map (\<lambda>(l, r). [l, r]) b)"

text \<open>\<^verbatim>\<open>np.column_stack((a, a))\<close> of a one-dimensional array.\<close>

definition column_stack2 :: "signal \<Rightarrow> stereo" where
  "column_stack2 a = map (\<lambda>s. (s, s)) a"

text \<open>
  Peak normalisation of a one-dimensional array, \<^verbatim>\<open>audio / np.max(np.abs(audio))\<close>
  (line 173), and of a stereo buffer,
  \<^verbatim>\<open>mixed_audio / np.max(np.abs(mixed_audio))\<close> (line 273): the maximum is taken over
  every sample of the array, and the division is not guarded.
\<close>

definition normalize_signal :: "signal \<Rightarrow> error + signal" where
  "normalize_signal audio =
     (case np_max (map np_abs audio) of
        Inl e \<Rightarrow> Inl e
      | Inr m \<Rightarrow> Inr (map (\<lambda>s. np_div s m) audio))"

definition normalize_stereo :: "stereo \<Rightarrow> error + stereo" where
  "normalize_stereo mixed =
     (case np_max (map np_abs (flatten mixed)) of
        Inl e \<Rightarrow> Inl e
      | Inr m \<Rightarrow> Inr (map (\<lambda>(l, r). (np_div l m, np_div r m)) mixed))"

section \<open>The spatial renderer\<close>

text \<open>
  The generator is built with the default sample rate, as \<^verbatim>\<open>generate_session.py\<close>
  builds it.
\<close>

definition sample_rate :: nat where
  "sample_rate = 44100"

type_synonym position = "real \<times> real \<times> real"

text \<open>
  The movement dictionary: either key may be missing (\<^verbatim>\<open>movement.get\<close> has defaults),
  and the dictionary with no key is falsy.
\<close>

record movement =
  pattern :: "string option"
  speed :: "real option"

text \<open>
  The imported engines and the operating system are parameters of the model.
  \<^item> \<open>room_simulate pos sig\<close> is the room-acoustics engine on one source: the signals
    of the two microphones (\<^verbatim>\<open>M=2\<close>, line 54), one pair per output instant. The engine
    returns them as an array with one row per microphone, which line 65 transposes.
  \<^item> \<open>rotation_apply (x, y, z) v\<close> is \<^verbatim>\<open>Rotation.from_euler('xyz', [x, y, z]).apply(v)\<close>.
  \<^item> \<open>random_rand\<close> is the stream of numbers \<^verbatim>\<open>np.random.rand\<close> draws from.
  \<^item> \<open>tts_save\<close> is the text-to-speech engine (the bytes it saves), \<open>from_mp3\<close> the
    decoder (16-bit samples), \<open>temp_name\<close> the name the operating system gives the
    next temporary file.
\<close>

record world =
  files :: "string \<rightharpoonup> 8 word list"
  rng_pos :: nat

record engines =
  room_simulate :: "position \<Rightarrow> signal \<Rightarrow> error + stereo"
  rotation_apply :: "position \<Rightarrow> signal \<Rightarrow> error + signal"
  random_rand :: "nat \<Rightarrow> real"
  tts_save :: "string \<Rightarrow> error + 8 word list"
  from_mp3 :: "8 word list \<Rightarrow> error + 16 word list"
  temp_name :: "world \<Rightarrow> string"

text \<open>Lines 81 to 90: the trajectory; any other pattern leaves \<open>x, y, z\<close> unbound.\<close>

definition trajectory ::
  "string \<Rightarrow> real \<Rightarrow> real list \<Rightarrow> (real list \<times> real list \<times> real list) option" where
  "trajectory pat spd t =
     (if pat = ''circular'' then
        Some (map (\<lambda>u. cos (2 * pi * spd * u)) t,
              map (\<lambda>u. sin (2 * pi * spd * u)) t,
              map (\<lambda>u. 0) t)
      else if pat = ''spiral'' then
        Some (map (\<lambda>u. u * cos (2 * pi * spd * u)) t,
              map (\<lambda>u. u * sin (2 * pi * spd * u)) t,
              t)
      else None)"

text \<open>
  \<^verbatim>\<open>output[i] = v\<close> on a row of a two-dimensional array: \<open>v\<close> must have the row's length,
  or one element, which is broadcast.
\<close>

definition assign_row :: "signal \<Rightarrow> signal \<Rightarrow> error + signal" where
  "assign_row row v =
     (if length v = length row then Inr v
      else if length v = 1 then Inr (map (\<lambda>_. hd v) row)
      else Inl (ValueError ''could not broadcast input array''))"

text \<open>
  Lines 94 to 96, the loop \<^verbatim>\<open>for i in range(len(t))\<close>: \<open>audio\<close> and \<open>output\<close> are arrays
  given by their rows (\<^verbatim>\<open>audio[i]\<close> is row \<open>i\<close>, \<^verbatim>\<open>len(audio)\<close> the number of rows).
\<close>

fun movement_loop ::
  "engines \<Rightarrow> (real list \<times> real list \<times> real list) option \<Rightarrow> signal list \<Rightarrow> nat list \<Rightarrow>
   signal list \<Rightarrow> error + signal list" where
  "movement_loop g traj audio [] output = Inr output"
| "movement_loop g traj audio (i # rest) output =
     (case traj of
        None \<Rightarrow> Inl (UnboundLocalError ''x'')
      | Some (x, y, z) \<Rightarrow>
          (case rotation_apply g (x ! i, y ! i, z ! i) (audio ! i) of
             Inl e \<Rightarrow> Inl e
           | Inr v \<Rightarrow>
               (case assign_row (output ! i) v of
                  Inl e \<Rightarrow> Inl e
                | Inr r \<Rightarrow> movement_loop g traj audio rest (output[i := r]))))"

text \<open>\<^verbatim>\<open>_apply_movement\<close>, lines 67 to 98.\<close>

definition apply_movement :: "engines \<Rightarrow> signal list \<Rightarrow> movement \<Rightarrow> error + signal list" where
  "apply_movement g audio mv =
     (let pat = (case pattern mv of None \<Rightarrow> ''circular'' | Some p \<Rightarrow> p);
          spd = (case speed mv of None \<Rightarrow> 0.5 | Some s \<Rightarrow> s);
          samples = length audio
      in case np_linspace 0 (real samples / real sample_rate) (int samples) of
           Inl e \<Rightarrow> Inl e
         | Inr t \<Rightarrow>
             movement_loop g (trajectory pat spd t) audio [0..<length t]
               (map (\<lambda>row. map (\<lambda>_. Fin 0) row) audio))"

text \<open>
  The input of \<^verbatim>\<open>create_spatial_effect\<close> is a one-dimensional array or a stereo buffer.
\<close>

datatype audio_in = Mono signal | Stereo stereo

text \<open>The transpose of line 65, on an array of two rows.\<close>

definition transpose2 :: "signal list \<Rightarrow> error + stereo" where
  "transpose2 rows =
     (case rows of
        [a, b] \<Rightarrow> Inr (zip a b)
      | _ \<Rightarrow> Inl (ValueError ''not a two-row array''))"

text \<open>
  \<^verbatim>\<open>create_spatial_effect\<close>, lines 31 to 65. The array \<^verbatim>\<open>output\<close> of line 59 has the
  two microphone signals as its rows; the movement is applied to it before the transpose.
\<close>

definition create_spatial_effect ::
  "engines \<Rightarrow> audio_in \<Rightarrow> position \<Rightarrow> movement option \<Rightarrow> error + stereo" where
  "create_spatial_effect g audio pos mv =
     (let frames = (case audio of Mono a \<Rightarrow> column_stack2 a | Stereo f \<Rightarrow> f) in
      case room_simulate g pos (map fst frames) of
        Inl e \<Rightarrow> Inl e
      | Inr mics \<Rightarrow>
          (let output = [map fst mics, map snd mics] in
           case (case mv of
                   None \<Rightarrow> Inr output
                 | Some m \<Rightarrow>
                     if pattern m = None \<and> speed m = None then Inr output
                     else apply_movement g output m) of
             Inl e \<Rightarrow> Inl e
           | Inr out \<Rightarrow> transpose2 out))"

section \<open>The audio generator\<close>

text \<open>Lines 109 to 115: the brainwave bands.\<close>

definition brainwave_states :: "string \<rightharpoonup> real \<times> real" where
  "brainwave_states =
     [''gamma'' \<mapsto> (30, 50), ''beta'' \<mapsto> (14, 30), ''alpha'' \<mapsto> (8, 14),
      ''theta'' \<mapsto> (4, 8), ''delta'' \<mapsto> (0.5, 4)]"

text \<open>
  Lines 118 to 135: the presets. A preset's dictionary has only the keys its own branch
  reads; the others are given as empty here and are never read.
\<close>

record sound_params =
  frequencies :: "real list"
  base_freq :: real
  harmonics :: "real list"
  duration :: real
  position :: position

definition special_sounds :: "string \<rightharpoonup> sound_params" where
  "special_sounds =
     [''crystal_bowls'' \<mapsto>
        \<lparr>frequencies = [396, 417, 528, 639, 741, 852], base_freq = 0, harmonics = [],
         duration = 3, position = (2.5, 2.5, 1.5)\<rparr>,
      ''om_chant'' \<mapsto>
        \<lparr>frequencies = [], base_freq = 136.1, harmonics = [2, 3, 4],
         duration = 4, position = (2.5, 0, 1.5)\<rparr>,
      ''wind_chimes'' \<mapsto>
        \<lparr>frequencies = [1318.51, 1174.66, 880, 987.77, 783.99], base_freq = 0, harmonics = [],
         duration = 2, position = (0, 2.5, 2)\<rparr>]"

text \<open>\<^verbatim>\<open>audio += np.sin(2 * np.pi * f * t) * amp\<close>.\<close>

definition add_partial :: "real list \<Rightarrow> real list \<Rightarrow> real \<Rightarrow> real \<Rightarrow> real list" where
  "add_partial t audio f amp = map2 (\<lambda>a u. a + sin (2 * pi * f * u) * amp) audio t"

text \<open>Lines 149 to 154.\<close>

definition crystal_bowls :: "real list \<Rightarrow> real list \<Rightarrow> real list" where
  "crystal_bowls fs t =
     foldl (\<lambda>audio freq.
              add_partial t (add_partial t (add_partial t audio freq 0.5) (freq * 2) 0.25)
                (freq * 3) 0.125)
       (map (\<lambda>_. 0) t) fs"

text \<open>Lines 157 to 159.\<close>

definition om_chant :: "real \<Rightarrow> real list \<Rightarrow> real list \<Rightarrow> real list" where
  "om_chant base hs t =
     foldl (\<lambda>audio harmonic. add_partial t audio (base * harmonic) (1 / harmonic))
       (map (\<lambda>u. sin (2 * pi * base * u)) t) hs"

text \<open>
  Lines 167 to 170, one chime at one start time. The guard makes \<open>idx\<close> a valid index,
  as the start times of the program are not negative.
\<close>

definition add_chime :: "real list \<Rightarrow> real \<Rightarrow> real list \<Rightarrow> real \<Rightarrow> real list" where
  "add_chime t freq audio start =
     (let idx = py_int (start * real sample_rate) in
      if idx + 44100 < int (length audio) then
        take (nat idx) audio
        @ map2 (+) (take 44100 (drop (nat idx) audio))
            (map (\<lambda>u. sin (2 * pi * freq * u) * exp (- u * 5)) (take 44100 t))
        @ drop (nat idx + 44100) audio
      else audio)"

text \<open>\<^verbatim>\<open>np.random.rand(5)\<close>: five numbers of the stream, which advances.\<close>

definition rand5 :: "engines \<Rightarrow> world \<Rightarrow> real list \<times> world" where
  "rand5 g w =
     (map (random_rand g) [rng_pos w..<rng_pos w + 5], w\<lparr>rng_pos := rng_pos w + 5\<rparr>)"

text \<open>Lines 163 to 170.\<close>

fun wind_chimes ::
  "engines \<Rightarrow> real \<Rightarrow> real list \<Rightarrow> real list \<Rightarrow> real list \<Rightarrow> world \<Rightarrow> real list \<times> world" where
  "wind_chimes g dur t [] audio w = (audio, w)"
| "wind_chimes g dur t (freq # fs) audio w =
     (case rand5 g w of
        (r, w') \<Rightarrow>
          wind_chimes g dur t fs (foldl (add_chime t freq) audio (map (\<lambda>x. x * dur) r)) w')"

text \<open>
  Lines 141 to 170 of \<^verbatim>\<open>generate_special_sound\<close>: the mono waveform of the preset before
  it is normalised, and the preset's position.
\<close>

definition raw_special_sound ::
  "engines \<Rightarrow> string \<Rightarrow> real option \<Rightarrow> world \<Rightarrow> (error + real list \<times> position) \<times> world" where
  "raw_special_sound g sound_type dur_arg w =
     (case special_sounds sound_type of
        None \<Rightarrow> (Inl (ValueError (''Unknown sound type: '' @ sound_type)), w)
      | Some p \<Rightarrow>
          (let dur = (case dur_arg of
                        None \<Rightarrow> duration p
                      | Some d \<Rightarrow> if d = 0 then duration p else d)
           in case np_linspace 0 dur (py_int (real sample_rate * dur)) of
                Inl e \<Rightarrow> (Inl e, w)
              | Inr t \<Rightarrow>
                  (if sound_type = ''crystal_bowls'' then
                     (Inr (crystal_bowls (frequencies p) t, position p), w)
                   else if sound_type = ''om_chant'' then
                     (Inr (om_chant (base_freq p) (harmonics p) t, position p), w)
                   else if sound_type = ''wind_chimes'' then
                     (case wind_chimes g dur t (frequencies p) (map (\<lambda>_. 0) t) w of
                        (a, w') \<Rightarrow> (Inr (a, position p), w'))
                   else (Inl (UnboundLocalError ''audio''), w))))"

text \<open>
  Lines 141 to 173 of \<^verbatim>\<open>generate_special_sound\<close>: the waveform is divided by its maximum
  absolute sample (line 173); the result and the position are handed to the spatial
  renderer.
\<close>

definition synthesize_special_sound ::
  "engines \<Rightarrow> string \<Rightarrow> real option \<Rightarrow> world \<Rightarrow> (error + signal \<times> position) \<times> world" where
  "synthesize_special_sound g sound_type dur_arg w =
     (case raw_special_sound g sound_type dur_arg w of
        (Inl e, w') \<Rightarrow> (Inl e, w')
      | (Inr (audio, pos), w') \<Rightarrow>
          (case normalize_signal (map Fin audio) of
             Inl e \<Rightarrow> (Inl e, w')
           | Inr a \<Rightarrow> (Inr (a, pos), w')))"

text \<open>\<^verbatim>\<open>generate_special_sound\<close>, lines 137 to 180.\<close>

definition generate_special_sound ::
  "engines \<Rightarrow> string \<Rightarrow> real option \<Rightarrow> world \<Rightarrow> (error + stereo) \<times> world" where
  "generate_special_sound g sound_type dur_arg w =
     (case synthesize_special_sound g sound_type dur_arg w of
        (Inl e, w') \<Rightarrow> (Inl e, w')
      | (Inr (a, pos), w') \<Rightarrow>
          (create_spatial_effect g (Mono a) pos
             (Some \<lparr>pattern = Some ''circular'', speed = Some 0.2\<rparr>), w'))"

text \<open>
  Lines 190 to 193 and 263 to 266: a buffer is padded with zero frames or cut to \<open>n\<close>
  frames.
\<close>

definition pad_or_truncate :: "nat \<Rightarrow> stereo \<Rightarrow> stereo" where
  "pad_or_truncate n sound =
     (if length sound < n then sound @ replicate (n - length sound) (Fin 0, Fin 0)
      else take n sound)"

text \<open>\<^verbatim>\<open>a + b * c\<close> on two stereo buffers of the same length and a gain.\<close>

definition add_scaled :: "stereo \<Rightarrow> stereo \<Rightarrow> real \<Rightarrow> stereo" where
  "add_scaled a b c =
     map2 (\<lambda>(al, ar) (bl, br). (np_add al (np_scale bl c), np_add ar (np_scale br c))) a b"

text \<open>Lines 188 to 194, the loop of \<^verbatim>\<open>create_atmos_mix\<close>; \<open>cnt\<close> is \<^verbatim>\<open>len(sounds)\<close>.\<close>

fun atmos_loop ::
  "engines \<Rightarrow> nat \<Rightarrow> real \<Rightarrow> string list \<Rightarrow> stereo \<Rightarrow> world \<Rightarrow> (error + stereo) \<times> world" where
  "atmos_loop g cnt dur [] output w = (Inr output, w)"
| "atmos_loop g cnt dur (sound_type # rest) output w =
     (case generate_special_sound g sound_type (Some dur) w of
        (Inl e, w') \<Rightarrow> (Inl e, w')
      | (Inr sound, w') \<Rightarrow>
          atmos_loop g cnt dur rest
            (add_scaled output (pad_or_truncate (length output) sound) (1 / real cnt)) w')"

text \<open>
  \<^verbatim>\<open>create_atmos_mix\<close>, lines 182 to 196; \<^verbatim>\<open>np.zeros\<close> raises on a negative length.
\<close>

definition create_atmos_mix ::
  "engines \<Rightarrow> string list \<Rightarrow> real \<Rightarrow> world \<Rightarrow> (error + stereo) \<times> world" where
  "create_atmos_mix g sounds dur w =
     (let n = py_int (real sample_rate * dur) in
      if n < 0 then (Inl (ValueError ''negative dimensions are not allowed''), w)
      else atmos_loop g (length sounds) dur sounds (replicate (nat n) (Fin 0, Fin 0)) w)"

text \<open>Line 212: a 16-bit sample divided by \<^verbatim>\<open>np.iinfo(np.int16).max\<close>.\<close>

definition rescale :: "16 word \<Rightarrow> real" where
  "rescale s = real_of_int (sint s) / 32767"

text \<open>
  \<^verbatim>\<open>generate_voice_guidance\<close>, lines 198 to 218. The temporary file is created with
  \<^verbatim>\<open>delete=False\<close>; leaving the \<^verbatim>\<open>with\<close> block closes it, and no line removes it. The
  decoder yields a one-dimensional array, which line 216 duplicates to stereo.
\<close>

definition generate_voice_guidance ::
  "engines \<Rightarrow> string \<Rightarrow> world \<Rightarrow> (error + stereo) \<times> world" where
  "generate_voice_guidance g script w =
     (let name = temp_name g w;
          w1 = w\<lparr>files := (files w)(name \<mapsto> [])\<rparr>
      in case tts_save g script of
           Inl e \<Rightarrow> (Inl e, w1)
         | Inr mp3 \<Rightarrow>
             (let w2 = w1\<lparr>files := (files w1)(name \<mapsto> mp3)\<rparr> in
              case from_mp3 g mp3 of
                Inl e \<Rightarrow> (Inl e, w2)
              | Inr pcm \<Rightarrow> (Inr (column_stack2 (map (\<lambda>s. Fin (rescale s)) pcm)), w2)))"

text \<open>Lines 249 to 252: the fallback tone.\<close>

definition fallback_tone :: "string \<Rightarrow> real \<Rightarrow> error + stereo" where
  "fallback_tone target_state dur =
     (case np_linspace 0 dur (py_int (real sample_rate * dur)) of
        Inl e \<Rightarrow> Inl e
      | Inr t \<Rightarrow>
          (case brainwave_states target_state of
             None \<Rightarrow> Inl (KeyError target_state)
           | Some (lo, hi) \<Rightarrow>
               Inr (column_stack2 (map (\<lambda>u. Fin (sin (2 * pi * ((lo + hi) / 2) * u))) t))))"

text \<open>
  Lines 246 to 270 of \<^verbatim>\<open>create_guided_meditation\<close>: the buffer that enters the final
  normalisation. \<^verbatim>\<open>None\<close> and the empty list, and \<^verbatim>\<open>None\<close> and the empty string, are
  falsy.
\<close>

definition mixed_audio ::
  "engines \<Rightarrow> real \<Rightarrow> string \<Rightarrow> string list option \<Rightarrow> string option \<Rightarrow> world \<Rightarrow>
   (error + stereo) \<times> world" where
  "mixed_audio g dur target_state sounds custom_script w =
     (case (case sounds of
              Some (s # ss) \<Rightarrow> create_atmos_mix g (s # ss) dur w
            | _ \<Rightarrow> (fallback_tone target_state dur, w)) of
        (Inl e, w1) \<Rightarrow> (Inl e, w1)
      | (Inr base_audio, w1) \<Rightarrow>
          (case custom_script of
             Some (c # cs) \<Rightarrow>
               (case generate_voice_guidance g (c # cs) w1 of
                  (Inl e, w2) \<Rightarrow> (Inl e, w2)
                | (Inr voice, w2) \<Rightarrow>
                    (case create_spatial_effect g (Stereo voice) (2.5, 2.5, 1.7) None of
                       Inl e \<Rightarrow> (Inl e, w2)
                     | Inr voice_audio \<Rightarrow>
                         (Inr (add_scaled (pad_or_truncate (length base_audio) voice_audio)
                                 base_audio 0.3), w2)))
           | _ \<Rightarrow> (Inr base_audio, w1)))"

text \<open>\<^verbatim>\<open>create_guided_meditation\<close>, lines 235 to 275.\<close>

definition create_guided_meditation ::
  "engines \<Rightarrow> real \<Rightarrow> string \<Rightarrow> string list option \<Rightarrow> string option \<Rightarrow> world \<Rightarrow>
   (error + stereo) \<times> world" where
  "create_guided_meditation g dur target_state sounds custom_script w =
     (case mixed_audio g dur target_state sounds custom_script w of
        (Inl e, w') \<Rightarrow> (Inl e, w')
      | (Inr mixed, w') \<Rightarrow> (normalize_stereo mixed, w'))"

section \<open>The mix, frame by frame\<close>






section \<open>Concrete engines for evaluating the model\<close>

text \<open>
  A room that returns its source signal on both microphones, a rotation that returns its
  vector, a random stream of zeros, and a decoder that yields three 16-bit samples, the
  minimum among them.
\<close>

definition demo_engines :: engines where
  "demo_engines =
     \<lparr>room_simulate = (\<lambda>pos sig. Inr (map (\<lambda>s. (s, s)) sig)),
      rotation_apply = (\<lambda>angles v. Inr v),
      random_rand = (\<lambda>n. 0),
      tts_save = (\<lambda>text. Inr [73, 68, 51]),
      from_mp3 = (\<lambda>bytes. Inr [- 32768, 0, 32767]),
      temp_name = (\<lambda>w. ''/tmp/tmpa1b2c3.mp3'')\<rparr>"

definition demo_world :: world where
  "demo_world = \<lparr>files = Map.empty, rng_pos = 0\<rparr>"

text \<open>
  A pure sine of 11 Hz, sampled at point \<open>i\<close> of the time grid
  \<^verbatim>\<open>np.linspace(0, 10, 441000)\<close>, whose step is \<open>10/440999\<close> seconds.
\<close>

definition alpha_tone :: "nat \<Rightarrow> real" where
  "alpha_tone i = sin (2 * pi * 11 * (real i * (10 / 440999)))"

section \<open>Facts about the maximum and the normalisation\<close>

lemma foldl_np_maximum_Fin:
  "foldl np_maximum (Fin a) (map Fin xs) = Fin (Max (insert a (set xs)))"
proof (induction xs arbitrary: a)
  case Nil
  show ?case by simp
next
  case (Cons x xs)
  have "Max (insert (max a x) (set xs)) = Max (insert a (insert x (set xs)))"
    by (cases "set xs = {}") (simp_all add: max.assoc)
  with Cons show ?case by simp
qed

lemma np_max_Fin:
  assumes "xs \<noteq> []"
  shows "np_max (map Fin xs) = Inr (Fin (Max (set xs)))"
proof -
  from assms obtain a rest where xs: "xs = a # rest" by (cases xs) auto
  show ?thesis
    unfolding xs np_max_def by (simp add: foldl_np_maximum_Fin)
qed

lemma flatten_map_pair:
  "flatten (map (\<lambda>(l, r). (f l, f r)) b) = map f (flatten b)"
  by (induction b) (auto simp: flatten_def)

lemma flatten_Nil_iff: "flatten b = [] \<longleftrightarrow> b = []"
  by (cases b) (auto simp: flatten_def)

lemma all_finite_map_Fin:
  "(\<forall>s \<in> set xs. is_finite s) \<Longrightarrow> \<exists>rs. xs = map Fin rs"
proof (induction xs)
  case Nil
  show ?case by simp
next
  case (Cons s xs)
  then obtain rs where "xs = map Fin rs" by auto
  moreover from Cons.prems obtain r where "s = Fin r" by (cases s) auto
  ultimately have "s # xs = map Fin (r # rs)" by simp
  then show ?case by (rule exI)
qed

lemma np_max_abs_Fin:
  fixes rs :: "real list"
  shows "rs \<noteq> [] \<Longrightarrow> np_max (map np_abs (map Fin rs)) = Inr (Fin (Max (abs ` set rs)))"
  using np_max_Fin [of "map abs rs"] by (simp add: comp_def)

lemma peak_pos:
  fixes rs :: "real list"
  assumes "r \<in> set rs" "r \<noteq> 0"
  shows "0 < Max (abs ` set rs)"
proof -
  have "\<bar>r\<bar> \<le> Max (abs ` set rs)" using assms(1) by (simp add: Max_ge)
  moreover have "0 < \<bar>r\<bar>" using assms(2) by simp
  ultimately show ?thesis by linarith
qed

lemma peak_of_scaled:
  fixes rs :: "real list"
  assumes "rs \<noteq> []" "0 < Max (abs ` set rs)"
  shows "Max (abs ` set (map (\<lambda>x. x / Max (abs ` set rs)) rs)) = 1"
proof -
  let ?M = "Max (abs ` set rs)"
  let ?S = "abs ` set (map (\<lambda>x. x / ?M) rs)"
  have fin: "finite ?S" by simp
  have ne: "?S \<noteq> {}" using assms(1) by simp
  have "?M \<in> abs ` set rs" using assms(1) by (intro Max_in) simp_all
  then obtain r where r: "r \<in> set rs" "\<bar>r\<bar> = ?M" by auto
  have "\<bar>r / ?M\<bar> = 1" using r(2) assms(2) by simp
  moreover have "\<bar>r / ?M\<bar> \<in> ?S" using r(1) by force
  ultimately have one_in: "1 \<in> ?S" by metis
  have "\<forall>y \<in> ?S. y \<le> 1"
  proof
    fix y assume "y \<in> ?S"
    then obtain x where x: "x \<in> set rs" "y = \<bar>x / ?M\<bar>" by auto
    have "\<bar>x\<bar> \<le> ?M" using x(1) by (simp add: Max_ge)
    then show "y \<le> 1" using x(2) assms(2) by (simp add: divide_le_eq_1)
  qed
  then show ?thesis using one_in fin ne by (meson Max_eqI)
qed


lemma in_flatten_iff:
  "s \<in> set (flatten b) \<longleftrightarrow> (\<exists>l r. (l, r) \<in> set b \<and> (s = l \<or> s = r))"
  by (auto simp: flatten_def)

lemma normalize_stereo_finite:
  fixes rs :: "real list"
  assumes fl: "flatten mixed = map Fin rs" and ne: "rs \<noteq> []"
    and pos: "0 < Max (abs ` set rs)"
  defines "out \<equiv> map (\<lambda>(l, r). (np_div l (Fin (Max (abs ` set rs))), np_div r (Fin (Max (abs ` set rs))))) mixed"
  shows "normalize_stereo mixed = Inr out"
    and "flatten out = map Fin (map (\<lambda>x. x / Max (abs ` set rs)) rs)"
    and "np_max (map np_abs (flatten out)) = Inr (Fin 1)"
    and "normalize_stereo out = Inr out"
proof -
  let ?M = "Max (abs ` set rs)"
  let ?rs' = "map (\<lambda>x. x / ?M) rs"
  show n1: "normalize_stereo mixed = Inr out"
    unfolding normalize_stereo_def fl np_max_abs_Fin [OF ne] out_def by simp
  show fo: "flatten out = map Fin ?rs'"
    unfolding out_def flatten_map_pair fl using pos by simp
  have ne': "?rs' \<noteq> []" using ne by simp
  show pk: "np_max (map np_abs (flatten out)) = Inr (Fin 1)"
    unfolding fo np_max_abs_Fin [OF ne'] using peak_of_scaled [OF ne pos] by simp
  have "map (\<lambda>(l, r). (np_div l (Fin 1), np_div r (Fin 1))) out = out"
  proof (rule map_idI)
    fix f assume f: "f \<in> set out"
    obtain l r where lr: "f = (l, r)" by (cases f)
    with f have "l \<in> set (flatten out)" "r \<in> set (flatten out)"
      by (auto simp: in_flatten_iff)
    then obtain x y where "l = Fin x" "r = Fin y" unfolding fo by auto
    then show "(case f of (l, r) \<Rightarrow> (np_div l (Fin 1), np_div r (Fin 1))) = f"
      using lr by simp
  qed
  then show "normalize_stereo out = Inr out"
    unfolding normalize_stereo_def pk by simp
qed

lemma normalize_stereo_silent:
  assumes "mixed \<noteq> []" and "\<forall>f \<in> set mixed. f = (Fin 0, Fin 0)"
  shows "normalize_stereo mixed = Inr (map (\<lambda>_. (NaN, NaN)) mixed)"
proof -
  obtain f rest where m: "mixed = f # rest" using assms(1) by (cases mixed) auto
  have "\<forall>s \<in> set (flatten mixed). is_finite s"
    using assms(2) by (fastforce simp: in_flatten_iff)
  then obtain rs where fl: "flatten mixed = map Fin rs"
    using all_finite_map_Fin by blast
  have ne: "rs \<noteq> []" using fl m by (cases f) (auto simp: flatten_def)
  have "\<forall>x \<in> set rs. x = 0"
  proof
    fix x assume "x \<in> set rs"
    then have "Fin x \<in> set (flatten mixed)" unfolding fl by simp
    then show "x = 0" using assms(2) by (auto simp: in_flatten_iff)
  qed
  then have "abs ` set rs = {0}" using ne by (cases rs) auto
  then have M: "Max (abs ` set rs) = 0" by simp
  have "map (\<lambda>(l, r). (np_div l (Fin 0), np_div r (Fin 0))) mixed = map (\<lambda>_. (NaN, NaN)) mixed"
    using assms(2) by (intro map_cong) auto
  then show ?thesis
    unfolding normalize_stereo_def fl np_max_abs_Fin [OF ne] M by simp
qed

section \<open>Runs of the model on the concrete engines\<close>

lemma demo_spatial_stereo:
  "create_spatial_effect demo_engines (Stereo v) pos None = Inr (map (\<lambda>f. (fst f, fst f)) v)"
  by (simp add: create_spatial_effect_def demo_engines_def transpose2_def zip_map_map
      comp_def zip_same_conv_map)

lemma sample_count_one: "py_int (real sample_rate * (1 / 44100)) = 1"
  by (simp add: py_int_def sample_rate_def)

lemma demo_fallback_one:
  "fallback_tone ''alpha'' (1 / 44100) = Inr [(Fin 0, Fin 0)]"
  unfolding fallback_tone_def sample_count_one
  by (simp add: np_linspace_def brainwave_states_def column_stack2_def)

lemma demo_voice:
  "generate_voice_guidance demo_engines ''breathe'' demo_world =
     (Inr [(Fin (- (32768 / 32767)), Fin (- (32768 / 32767))), (Fin 0, Fin 0), (Fin 1, Fin 1)],
      demo_world\<lparr>files := [''/tmp/tmpa1b2c3.mp3'' \<mapsto> [73, 68, 51]]\<rparr>)"
  by (simp add: generate_voice_guidance_def demo_engines_def demo_world_def column_stack2_def
      rescale_def)

lemma demo_mixed_voice:
  "mixed_audio demo_engines (1 / 44100) ''alpha'' None (Some ''breathe'') demo_world =
     (Inr [(Fin (- (32768 / 32767)), Fin (- (32768 / 32767)))],
      demo_world\<lparr>files := [''/tmp/tmpa1b2c3.mp3'' \<mapsto> [73, 68, 51]]\<rparr>)"
  unfolding mixed_audio_def demo_fallback_one
  by (simp add: demo_voice demo_spatial_stereo pad_or_truncate_def add_scaled_def)

lemma demo_mixed_silent:
  "mixed_audio demo_engines (1 / 44100) ''alpha'' None None demo_world =
     (Inr [(Fin 0, Fin 0)], demo_world)"
  unfolding mixed_audio_def demo_fallback_one by simp

lemma demo_room: "room_simulate demo_engines pos sig = Inr (map (\<lambda>s. (s, s)) sig)"
  by (simp add: demo_engines_def)

lemma demo_rotation: "rotation_apply demo_engines angles v = Inr v"
  by (simp add: demo_engines_def)

lemma demo_movement_rows:
  "apply_movement demo_engines [a, b] \<lparr>pattern = Some ''circular'', speed = spd\<rparr> = Inr [a, b]"
  by (simp add: apply_movement_def np_linspace_def trajectory_def assign_row_def demo_rotation
      upt_rec split: option.splits)

lemma demo_spatial_mono:
  "create_spatial_effect demo_engines (Mono a) pos
     (Some \<lparr>pattern = Some ''circular'', speed = Some spd\<rparr>) = Inr (map (\<lambda>s. (s, s)) a)"
  by (simp add: create_spatial_effect_def demo_room demo_movement_rows column_stack2_def
      transpose2_def comp_def zip_same_conv_map)

lemma unknown_band_foo: "brainwave_states ''foo'' = None"
  by (simp add: brainwave_states_def)

lemma np_linspace_returns:
  "0 \<le> num \<Longrightarrow> \<exists>t. np_linspace a b num = Inr t"
  by (simp add: np_linspace_def)

lemma fallback_tone_unknown_band:
  assumes "brainwave_states target_state = None" and "0 \<le> py_int (real sample_rate * dur)"
  shows "fallback_tone target_state dur = Inl (KeyError target_state)"
proof -
  obtain t where "np_linspace 0 dur (py_int (real sample_rate * dur)) = Inr t"
    using np_linspace_returns [OF assms(2)] by blast
  then show ?thesis by (simp add: fallback_tone_def assms(1))
qed

section \<open>Lengths, and runs that return\<close>

lemma length_pad_or_truncate: "length (pad_or_truncate n sound) = n"
  by (simp add: pad_or_truncate_def)

lemma length_add_scaled: "length b = length a \<Longrightarrow> length (add_scaled a b c) = length a"
  by (simp add: add_scaled_def)

lemma atmos_loop_length:
  "atmos_loop g cnt dur sounds acc w = (Inr out, w') \<Longrightarrow> length out = length acc"
proof (induction sounds arbitrary: acc w)
  case Nil
  then show ?case by simp
next
  case (Cons s rest)
  from Cons.prems obtain sound w1 where
    "generate_special_sound g s (Some dur) w = (Inr sound, w1)"
    and rec: "atmos_loop g cnt dur rest
          (add_scaled acc (pad_or_truncate (length acc) sound) (1 / real cnt)) w1 = (Inr out, w')"
    by (auto split: prod.splits sum.splits)
  from Cons.IH [OF rec] show ?case
    by (simp add: length_add_scaled length_pad_or_truncate)
qed

lemma create_atmos_mix_frames:
  assumes "create_atmos_mix g sounds dur w = (Inr out, w')"
  shows "int (length out) = py_int (real sample_rate * dur)"
proof -
  let ?n = "py_int (real sample_rate * dur)"
  from assms have nn: "\<not> ?n < 0"
    by (auto simp: create_atmos_mix_def Let_def split: if_splits)
  with assms have "atmos_loop g (length sounds) dur sounds (replicate (nat ?n) (Fin 0, Fin 0)) w
      = (Inr out, w')"
    by (simp add: create_atmos_mix_def Let_def)
  from atmos_loop_length [OF this] have "length out = nat ?n" by simp
  with nn show ?thesis by simp
qed

lemma np_linspace_length:
  "0 \<le> num \<Longrightarrow> \<exists>t. np_linspace a b num = Inr t \<and> length t = nat num"
  by (simp add: np_linspace_def)

lemma length_add_partial:
  "length audio = length t \<Longrightarrow> length (add_partial t audio f amp) = length t"
  by (simp add: add_partial_def)

lemma length_foldl_keep:
  assumes "\<And>a x. length a = n \<Longrightarrow> length (f a x) = n" and "length init = n"
  shows "length (foldl f init xs) = n"
  using assms(2) by (induction xs arbitrary: init) (simp_all add: assms(1))

lemma length_crystal_bowls: "length (crystal_bowls fs t) = length t"
  unfolding crystal_bowls_def
  by (rule length_foldl_keep) (simp_all add: length_add_partial)

lemma length_om_chant: "length (om_chant base hs t) = length t"
  unfolding om_chant_def
  by (rule length_foldl_keep) (simp_all add: length_add_partial)

lemma normalize_signal_returns:
  "a \<noteq> [] \<Longrightarrow> \<exists>out. normalize_signal a = Inr out \<and> length out = length a"
  by (cases a) (simp_all add: normalize_signal_def np_max_def)

lemma normalize_stereo_returns:
  "b \<noteq> [] \<Longrightarrow> \<exists>out. normalize_stereo b = Inr out \<and> length out = length b"
  by (cases b) (auto simp: normalize_stereo_def np_max_def flatten_def)

lemma synthesize_tonal_returns:
  assumes st: "sound_type = ''crystal_bowls'' \<or> sound_type = ''om_chant''"
    and d: "dur \<noteq> 0" and n: "1 \<le> py_int (real sample_rate * dur)"
  shows "\<exists>a. synthesize_special_sound g sound_type (Some dur) w =
               (Inr (a, position (the (special_sounds sound_type))), w) \<and>
             length a = nat (py_int (real sample_rate * dur))"
proof -
  from n obtain t where t: "np_linspace 0 dur (py_int (real sample_rate * dur)) = Inr t"
    and lt: "length t = nat (py_int (real sample_rate * dur))"
    using np_linspace_length [of "py_int (real sample_rate * dur)" 0 dur] by auto
  from n lt have tne: "t \<noteq> []" by auto
  from st show ?thesis
  proof
    assume s: "sound_type = ''crystal_bowls''"
    let ?audio = "crystal_bowls [396, 417, 528, 639, 741, 852] t"
    have "map Fin ?audio \<noteq> []" using tne length_crystal_bowls [of _ t] by (metis length_0_conv map_is_Nil_conv)
    from normalize_signal_returns [OF this] obtain a where
      "normalize_signal (map Fin ?audio) = Inr a" "length a = length t"
      by (auto simp: length_crystal_bowls)
    then show ?thesis
      using d t lt by (simp add: synthesize_special_sound_def raw_special_sound_def s special_sounds_def)
  next
    assume s: "sound_type = ''om_chant''"
    let ?audio = "om_chant 136.1 [2, 3, 4] t"
    have "map Fin ?audio \<noteq> []" using tne length_om_chant [of _ _ t] by (metis length_0_conv map_is_Nil_conv)
    from normalize_signal_returns [OF this] obtain a where
      "normalize_signal (map Fin ?audio) = Inr a" "length a = length t"
      by (auto simp: length_om_chant)
    then show ?thesis
      using d t lt by (simp add: synthesize_special_sound_def raw_special_sound_def s special_sounds_def)
  qed
qed

lemma demo_generate_tonal_returns:
  assumes "sound_type = ''crystal_bowls'' \<or> sound_type = ''om_chant''"
    and "dur \<noteq> 0" and "1 \<le> py_int (real sample_rate * dur)"
  shows "\<exists>sound. generate_special_sound demo_engines sound_type (Some dur) w = (Inr sound, w)"
proof -
  from synthesize_tonal_returns [OF assms] obtain a where
    "synthesize_special_sound demo_engines sound_type (Some dur) w =
       (Inr (a, position (the (special_sounds sound_type))), w)"
    by blast
  then show ?thesis
    by (simp add: generate_special_sound_def demo_spatial_mono)
qed

lemma demo_atmos_loop_returns:
  assumes "\<forall>s \<in> set sounds. s = ''crystal_bowls'' \<or> s = ''om_chant''"
    and "dur \<noteq> 0" and "1 \<le> py_int (real sample_rate * dur)"
  shows "\<exists>out. atmos_loop demo_engines cnt dur sounds acc w = (Inr out, w)"
  using assms(1)
proof (induction sounds arbitrary: acc)
  case Nil
  show ?case by simp
next
  case (Cons s rest)
  then have "s = ''crystal_bowls'' \<or> s = ''om_chant''" by simp
  from demo_generate_tonal_returns [OF this assms(2,3)] obtain sound where
    "generate_special_sound demo_engines s (Some dur) w = (Inr sound, w)" by blast
  then show ?case using Cons by simp
qed

lemma sample_count_ten_minutes: "py_int (real sample_rate * 600) = 26460000"
  by (simp add: py_int_def sample_rate_def)

lemma demo_atmos_returns:
  "\<exists>out. create_atmos_mix demo_engines [''crystal_bowls'', ''om_chant''] 600 demo_world =
     (Inr out, demo_world)"
  unfolding create_atmos_mix_def Let_def sample_count_ten_minutes
  using demo_atmos_loop_returns [of "[''crystal_bowls'', ''om_chant'']" 600]
  by (simp add: sample_count_ten_minutes)

lemma demo_guided_returns:
  "\<exists>out. create_guided_meditation demo_engines 600 target_state
       (Some [''crystal_bowls'', ''om_chant'']) None demo_world = (Inr out, demo_world)"
proof -
  from demo_atmos_returns obtain base where
    b: "create_atmos_mix demo_engines [''crystal_bowls'', ''om_chant''] 600 demo_world =
      (Inr base, demo_world)" by blast
  from create_atmos_mix_frames [OF b] have "int (length base) = 26460000"
    by (simp add: sample_count_ten_minutes)
  then have "base \<noteq> []" by auto
  from normalize_stereo_returns [OF this] obtain out where "normalize_stereo base = Inr out"
    by blast
  then show ?thesis
    by (simp add: create_guided_meditation_def mixed_audio_def b)
qed

section \<open>The presets before spatial rendering\<close>

lemma sin_pos_small:
  fixes c :: real
  assumes "0 < c" "c < 1"
  shows "0 < sin (pi * c)"
proof -
  have "0 < pi * c" using assms(1) by simp
  moreover have "pi * c < pi" using assms(2) by simp
  ultimately show ?thesis by (rule sin_gt_zero)
qed

lemma add_chime_short:
  assumes "int (length audio) \<le> 44100" and "0 \<le> start"
  shows "add_chime t freq audio start = audio"
proof -
  have "0 \<le> start * real sample_rate" using assms(2) by simp
  then have "0 \<le> py_int (start * real sample_rate)" by (simp add: py_int_def)
  then show ?thesis using assms(1) by (simp add: add_chime_def Let_def)
qed

lemma foldl_add_chime_short:
  assumes "int (length audio) \<le> 44100" and "\<forall>s \<in> set starts. 0 \<le> s"
  shows "foldl (add_chime t freq) audio starts = audio"
  using assms(2) by (induction starts) (simp_all add: add_chime_short [OF assms(1)])

lemma wind_chimes_short:
  assumes "int (length audio) \<le> 44100" and "0 \<le> dur" and "\<forall>k. 0 \<le> random_rand g k"
  shows "fst (wind_chimes g dur t fs audio w) = audio"
proof (induction fs arbitrary: w)
  case Nil
  show ?case by simp
next
  case (Cons freq fs)
  have "\<forall>s \<in> set (map (\<lambda>x. x * dur) (fst (rand5 g w))). 0 \<le> s"
    using assms(2,3) by (auto simp: rand5_def)
  from foldl_add_chime_short [OF assms(1) this] show ?case
    using Cons.IH by (simp add: split_beta)
qed

lemma foldl_np_maximum_zeros:
  "foldl np_maximum (Fin 0) (replicate m (Fin 0)) = Fin 0"
  by (induction m) simp_all

lemma normalize_signal_zeros:
  assumes "0 < n"
  shows "normalize_signal (replicate n (Fin 0)) = Inr (replicate n NaN)"
proof -
  from assms obtain m where n: "n = Suc m" by (cases n) auto
  have "np_max (map np_abs (replicate n (Fin 0))) = Inr (Fin 0)"
    unfolding n by (simp add: np_max_def foldl_np_maximum_zeros)
  then show ?thesis by (simp add: normalize_signal_def)
qed

lemma foldl_np_maximum_NaN: "foldl np_maximum NaN xs = NaN"
  by (induction xs) simp_all


lemma synthesize_wind_chimes:
  assumes "d \<noteq> 0" and "np_linspace 0 d (py_int (real sample_rate * d)) = Inr t"
    and "fst (wind_chimes g d t [1318.51, 1174.66, 880, 987.77, 783.99] (map (\<lambda>_. 0) t) w) = audio"
    and "normalize_signal (map Fin audio) = Inr a"
  shows "fst (synthesize_special_sound g ''wind_chimes'' (Some d) w) = Inr (a, (0, 2.5, 2))"
  using assms
  by (simp add: synthesize_special_sound_def raw_special_sound_def special_sounds_def Let_def split: prod.splits)

lemma sample_count_one_second: "py_int (real sample_rate * 1) = 44100"
  by (simp add: py_int_def sample_rate_def)

lemma demo_rand_nonneg: "\<forall>k. 0 \<le> random_rand demo_engines k"
  by (simp add: demo_engines_def)

section \<open>The fallback tone\<close>

lemma np_linspace_many:
  "2 \<le> n \<Longrightarrow>
   np_linspace 0 d (int n) = Inr (map (\<lambda>i. real i * (d / real (n - 1))) [0..<n])"
  by (simp add: np_linspace_def)

lemma fallback_tone_samples:
  assumes "brainwave_states target_state = Some (lo, hi)"
    and "py_int (real sample_rate * dur) = int n" and "2 \<le> n"
  shows "fallback_tone target_state dur =
           Inr (map (\<lambda>i. (Fin (sin (2 * pi * ((lo + hi) / 2) * (real i * (dur / real (n - 1))))),
                           Fin (sin (2 * pi * ((lo + hi) / 2) * (real i * (dur / real (n - 1)))))))
                  [0..<n])"
  unfolding fallback_tone_def assms(2) np_linspace_many [OF assms(3)]
  by (simp add: assms(1) column_stack2_def comp_def)

lemma flatten_tone:
  "flatten (map (\<lambda>i. (Fin (f i), Fin (f i))) xs) = map Fin (concat (map (\<lambda>i. [f i, f i]) xs))"
  by (induction xs) (simp_all add: flatten_def)

lemma set_concat_dup: "set (concat (map (\<lambda>i. [f i, f i]) xs)) = f ` set xs"
  by (induction xs) auto

lemma normalize_tone:
  fixes f :: "nat \<Rightarrow> real"
  assumes "k < n" and "f k \<noteq> 0"
  defines "m \<equiv> Max (abs ` f ` {..<n})"
  defines "out \<equiv> map (\<lambda>i. (Fin (f i / m), Fin (f i / m))) [0..<n]"
  shows "0 < m"
    and "normalize_stereo (map (\<lambda>i. (Fin (f i), Fin (f i))) [0..<n]) = Inr out"
    and "np_max (map np_abs (flatten out)) = Inr (Fin 1)"
proof -
  let ?mixed = "map (\<lambda>i. (Fin (f i), Fin (f i))) [0..<n]"
  let ?rs = "concat (map (\<lambda>i. [f i, f i]) [0..<n])"
  have fl: "flatten ?mixed = map Fin ?rs" by (rule flatten_tone)
  have s: "set ?rs = f ` {..<n}" unfolding set_concat_dup by (simp add: atLeast0LessThan)
  have kin: "f k \<in> set ?rs" unfolding s using assms(1) by simp
  then have ne: "?rs \<noteq> []" by auto
  have M: "Max (abs ` set ?rs) = m" unfolding s m_def ..
  show pos: "0 < m" using peak_pos [OF kin assms(2)] unfolding M .
  have pos': "0 < Max (abs ` set ?rs)" unfolding M by (rule pos)
  note n = normalize_stereo_finite [OF fl ne pos']
  have "map (\<lambda>(l, r). (np_div l (Fin m), np_div r (Fin m))) ?mixed = out"
    unfolding out_def using pos by (simp add: comp_def)
  then have o: "map (\<lambda>(l, r). (np_div l (Fin (Max (abs ` set ?rs))),
      np_div r (Fin (Max (abs ` set ?rs))))) ?mixed = out" unfolding M .
  show "normalize_stereo ?mixed = Inr out" using n(1) unfolding o .
  show "np_max (map np_abs (flatten out)) = Inr (Fin 1)" using n(3) unfolding o .
qed

lemma sample_count_ten_seconds: "py_int (real sample_rate * 10) = int 441000"
  by (simp add: py_int_def sample_rate_def)

lemma alpha_band: "brainwave_states ''alpha'' = Some (8, 14)"
  by (simp add: brainwave_states_def)

lemma fallback_alpha_ten:
  "fallback_tone ''alpha'' 10 =
     Inr (map (\<lambda>i. (Fin (alpha_tone i), Fin (alpha_tone i))) [0..<441000])"
proof -
  have "fallback_tone ''alpha'' 10 =
      Inr (map (\<lambda>i. (Fin (sin (2 * pi * ((8 + 14) / 2) * (real i * (10 / real (441000 - 1 :: nat))))),
                      Fin (sin (2 * pi * ((8 + 14) / 2) * (real i * (10 / real (441000 - 1 :: nat)))))))
             [0..<441000])"
    by (rule fallback_tone_samples [OF alpha_band sample_count_ten_seconds]) simp
  also have "\<dots> = Inr (map (\<lambda>i. (Fin (alpha_tone i), Fin (alpha_tone i))) [0..<441000])"
    by (simp add: alpha_tone_def)
  finally show ?thesis .
qed

lemma alpha_tone_one_pos: "alpha_tone 1 \<noteq> 0"
proof -
  have "0 < sin (pi * (220 / 440999))" by (rule sin_pos_small) simp_all
  moreover have "alpha_tone 1 = sin (pi * (220 / 440999))"
    by (simp add: alpha_tone_def algebra_simps)
  ultimately show ?thesis by simp
qed

lemma guided_alpha_ten:
  defines "m \<equiv> Max (abs ` alpha_tone ` {..<441000})"
  shows "0 < m"
    and "create_guided_meditation g 10 ''alpha'' None None w =
           (Inr (map (\<lambda>i. (Fin (alpha_tone i / m), Fin (alpha_tone i / m))) [0..<441000]), w)"
    and "np_max (map np_abs (flatten
           (map (\<lambda>i. (Fin (alpha_tone i / m), Fin (alpha_tone i / m))) [0..<441000]))) =
         Inr (Fin 1)"
proof -
  have k: "(1 :: nat) < 441000" by simp
  note n = normalize_tone [of 1 441000 alpha_tone, OF k alpha_tone_one_pos, folded m_def]
  show "0 < m" by (rule n(1))
  show "create_guided_meditation g 10 ''alpha'' None None w =
      (Inr (map (\<lambda>i. (Fin (alpha_tone i / m), Fin (alpha_tone i / m))) [0..<441000]), w)"
    unfolding create_guided_meditation_def mixed_audio_def fallback_alpha_ten
    using n(2) by simp
  show "np_max (map np_abs (flatten
      (map (\<lambda>i. (Fin (alpha_tone i / m), Fin (alpha_tone i / m))) [0..<441000]))) = Inr (Fin 1)"
    by (rule n(3))
qed

section \<open>The movement loop\<close>

lemma movement_two_rows:
  assumes "rotation_apply g (1, 0, 0) a = Inr r0" and "length r0 = length a"
    and "rotation_apply g (cos (2 * pi * spd * (2 / 44100)), sin (2 * pi * spd * (2 / 44100)), 0) b
           = Inr r1" and "length r1 = length b"
  shows "apply_movement g [a, b] \<lparr>pattern = Some ''circular'', speed = Some spd\<rparr> = Inr [r0, r1]"
  using assms
  by (simp add: apply_movement_def np_linspace_def trajectory_def assign_row_def sample_rate_def
      upt_rec)

lemma movement_loop_length:
  "movement_loop g traj audio idxs acc = Inr out \<Longrightarrow> length out = length acc"
proof (induction idxs arbitrary: acc)
  case Nil
  then show ?case by simp
next
  case (Cons i rest)
  from Cons.prems obtain r where
    "movement_loop g traj audio rest (acc[i := r]) = Inr out"
    by (auto split: option.splits sum.splits prod.splits)
  from Cons.IH [OF this] show ?case by simp
qed

lemma apply_movement_rows:
  assumes "apply_movement g audio mv = Inr out"
  shows "length out = length audio"
  using assms
  by (auto simp: apply_movement_def Let_def split: sum.splits dest!: movement_loop_length)

section \<open>Silent and sounding presets\<close>
















lemma demo_wind_chimes_one_second:
  "fst (synthesize_special_sound demo_engines ''wind_chimes'' (Some 1) demo_world) =
     Inr (replicate 44100 NaN, (0, 2.5, 2))"
proof -
  obtain t where t: "np_linspace 0 1 (py_int (real sample_rate * 1)) = Inr t"
    and lt: "length t = 44100"
    using np_linspace_length [of 44100 0 1] unfolding sample_count_one_second by auto
  have z: "map (\<lambda>_. 0 :: real) t = replicate 44100 0"
    using lt by (simp add: map_replicate_const)
  have w: "fst (wind_chimes demo_engines 1 t [1318.51, 1174.66, 880, 987.77, 783.99]
      (map (\<lambda>_. 0) t) demo_world) = replicate 44100 0"
    unfolding z by (rule wind_chimes_short) (simp_all add: demo_rand_nonneg)
  have n: "normalize_signal (map Fin (replicate 44100 (0 :: real))) = Inr (replicate 44100 NaN)"
    using normalize_signal_zeros [of 44100] by simp
  show ?thesis
    by (rule synthesize_wind_chimes [OF _ t w n]) simp
qed

section \<open>The content of the mix\<close>















section \<open>A mix of undefined samples\<close>

lemma flatten_replicate: "flatten (replicate n (a, b)) = concat (replicate n [a, b])"
  by (simp add: flatten_def map_replicate)

lemma normalize_stereo_all_NaN:
  assumes "0 < n"
  shows "normalize_stereo (replicate n (NaN, NaN)) = Inr (replicate n (NaN, NaN))"
    and "np_max (map np_abs (flatten (replicate n (NaN, NaN)))) = Inr NaN"
proof -
  from assms obtain m where n: "n = Suc m" by (cases n) auto
  show p: "np_max (map np_abs (flatten (replicate n (NaN, NaN)))) = Inr NaN"
    unfolding n by (simp add: flatten_def np_max_def foldl_np_maximum_NaN)
  show "normalize_stereo (replicate n (NaN, NaN)) = Inr (replicate n (NaN, NaN))"
    unfolding normalize_stereo_def p by simp
qed

lemma demo_atmos_wind_chimes_one_second:
  "fst (create_atmos_mix demo_engines [''wind_chimes''] 1 demo_world) =
     Inr (replicate 44100 (NaN, NaN))"
proof -
  obtain w1 where s: "synthesize_special_sound demo_engines ''wind_chimes'' (Some 1) demo_world =
      (Inr (replicate 44100 NaN, (0, 2.5, 2)), w1)"
    using demo_wind_chimes_one_second
    by (cases "synthesize_special_sound demo_engines ''wind_chimes'' (Some 1) demo_world") auto
  have g: "generate_special_sound demo_engines ''wind_chimes'' (Some 1) demo_world =
      (Inr (replicate 44100 (NaN, NaN)), w1)"
    unfolding generate_special_sound_def s by (simp add: demo_spatial_mono)
  have a: "add_scaled (replicate 44100 (Fin 0, Fin 0))
      (pad_or_truncate 44100 (replicate 44100 (NaN, NaN))) 1 = replicate 44100 (NaN, NaN)"
    by (simp add: pad_or_truncate_def add_scaled_def zip_replicate)
  show ?thesis
    unfolding create_atmos_mix_def Let_def sample_count_one_second
    by (simp add: g a)
qed

section \<open>The rescaling of decoded speech\<close>

lemma rescale_bounds:
  "- (32768 / 32767) \<le> rescale s \<and> rescale s \<le> 1"
proof -
  have "- (2 ^ (LENGTH(16) - 1)) \<le> sint s" by (rule sint_ge)
  moreover have "sint s < 2 ^ (LENGTH(16) - 1)" by (rule sint_lt)
  ultimately have "- 32768 \<le> sint s" "sint s \<le> 32767" by simp_all
  then have "- 32768 \<le> real_of_int (sint s)" "real_of_int (sint s) \<le> 32767" by linarith+
  then show ?thesis by (simp add: rescale_def field_simps)
qed

lemma rescale_ge_minus_one:
  assumes "s \<noteq> - 32768"
  shows "- 1 \<le> rescale s"
proof -
  have "- (2 ^ (LENGTH(16) - 1)) \<le> sint s" by (rule sint_ge)
  then have lo: "- 32768 \<le> sint s" by simp
  have "sint s \<noteq> - 32768"
  proof
    assume "sint s = - 32768"
    then have "word_of_int (sint s) = (word_of_int (- 32768) :: 16 word)" by simp
    then have "s = - 32768" by simp
    with assms show False by contradiction
  qed
  with lo have "- 32767 \<le> sint s" by linarith
  then have "- 32767 \<le> real_of_int (sint s)" by linarith
  then show ?thesis by (simp add: rescale_def field_simps)
qed

lemma rescale_min: "rescale (- 32768) = - (32768 / 32767)"
  by (simp add: rescale_def)

lemma rescale_in_unit_range_iff: "- 1 \<le> rescale s \<longleftrightarrow> s \<noteq> - 32768"
  using rescale_ge_minus_one [of s] by (auto simp: rescale_min)

text \<open>
  Claim C9, as amended. Whenever the text-to-speech engine and the decoder succeed,
  \<^verbatim>\<open>generate_voice_guidance\<close> returns each decoded 16-bit sample divided by 32767, on both
  channels. Every such value lies between \<open>-32768/32767\<close> and \<open>1\<close>; it is at least \<open>-1\<close>
  exactly when the decoded sample is not the minimum \<open>-32768\<close>.
\<close>

theorem voice_guidance_sample_range:
  assumes "tts_save g script = Inr mp3" and "from_mp3 g mp3 = Inr pcm"
  shows "fst (generate_voice_guidance g script w) =
           Inr (map (\<lambda>s. (Fin (rescale s), Fin (rescale s))) pcm) \<and>
         (\<forall>s. - (32768 / 32767) \<le> rescale s \<and> rescale s \<le> 1 \<and>
              (- 1 \<le> rescale s \<longleftrightarrow> s \<noteq> - 32768))"
proof -
  have "fst (generate_voice_guidance g script w) =
          Inr (map (\<lambda>s. (Fin (rescale s), Fin (rescale s))) pcm)"
    using assms by (simp add: generate_voice_guidance_def Let_def column_stack2_def comp_def)
  then show ?thesis
    using rescale_bounds rescale_in_unit_range_iff by blast
qed

theorem voice_guidance_sample_range_witness:
  "fst (generate_voice_guidance demo_engines ''breathe'' demo_world) =
     Inr (map (\<lambda>s. (Fin (rescale s), Fin (rescale s))) [- 32768, 0, 32767]) \<and>
   - 1 \<le> rescale 0 \<and> \<not> - 1 \<le> rescale (- 32768) \<and> rescale 32767 \<le> 1"
  using voice_guidance_sample_range
    [of demo_engines "''breathe''" "[73, 68, 51]" "[- 32768, 0, 32767]" demo_world]
  by (simp add: demo_engines_def)

text \<open>
  Claim C9 as stated fails: when the decoder yields the sample \<open>-32768\<close>, the value
  returned for it is \<open>-32768/32767\<close>, which is below \<open>-1\<close>.
\<close>

theorem voice_guidance_below_minus_one:
  "fst (generate_voice_guidance demo_engines ''breathe'' demo_world) =
     Inr [(Fin (- (32768 / 32767)), Fin (- (32768 / 32767))), (Fin 0, Fin 0), (Fin 1, Fin 1)] \<and>
   - (32768 / 32767) < (- 1 :: real)"
  by (simp add: generate_voice_guidance_def demo_engines_def demo_world_def column_stack2_def
      rescale_def)

section \<open>The empty list of special sounds\<close>

text \<open>
  Claim C10. With the empty list for \<^verbatim>\<open>special_sounds\<close>, \<^verbatim>\<open>create_guided_meditation\<close>
  returns what it returns with \<^verbatim>\<open>None\<close> (same duration, band, script and world), and its
  base bed is the fallback tone: \<^verbatim>\<open>create_atmos_mix\<close> is not called.
\<close>

theorem guided_meditation_empty_sound_list:
  "create_guided_meditation g dur target_state (Some []) custom_script w =
     create_guided_meditation g dur target_state None custom_script w \<and>
   mixed_audio g dur target_state (Some []) None w = (fallback_tone target_state dur, w)"
  by (simp add: create_guided_meditation_def mixed_audio_def split: sum.splits)

section \<open>The final normalisation\<close>

text \<open>
  Claim C7, as amended. For a mixed buffer whose samples are all finite and not all zero,
  the peak normalisation returns a buffer whose maximum absolute sample is exactly \<open>1\<close>, and
  normalising that buffer again returns it unchanged. Hence, when the buffer entering the
  last line of \<^verbatim>\<open>create_guided_meditation\<close> is such a buffer, the function returns a
  buffer of maximum absolute sample \<open>1\<close>.
\<close>

theorem peak_normalization_idempotent:
  assumes fin: "\<forall>s \<in> set (flatten mixed). is_finite s"
    and ns: "\<exists>s \<in> set (flatten mixed). s \<noteq> Fin 0"
  shows "\<exists>out. normalize_stereo mixed = Inr out \<and> normalize_stereo out = Inr out \<and>
           np_max (map np_abs (flatten out)) = Inr (Fin 1) \<and>
           (mixed_audio g dur target_state sounds custom_script w = (Inr mixed, w') \<longrightarrow>
            create_guided_meditation g dur target_state sounds custom_script w = (Inr out, w'))"
proof -
  from fin obtain rs where fl: "flatten mixed = map Fin rs"
    using all_finite_map_Fin by blast
  from ns obtain x where x: "x \<in> set rs" "x \<noteq> 0" unfolding fl by auto
  then have ne: "rs \<noteq> []" by auto
  have pos: "0 < Max (abs ` set rs)" using x by (rule peak_pos)
  note n = normalize_stereo_finite [OF fl ne pos]
  show ?thesis
    using n(1) n(3) n(4) by (simp add: create_guided_meditation_def)
qed

theorem peak_normalization_idempotent_witness:
  "\<exists>out. mixed_audio demo_engines 10 ''alpha'' None None demo_world =
       (Inr (map (\<lambda>i. (Fin (alpha_tone i), Fin (alpha_tone i))) [0..<441000]), demo_world) \<and>
     create_guided_meditation demo_engines 10 ''alpha'' None None demo_world =
       (Inr out, demo_world) \<and>
     length out = 441000 \<and> normalize_stereo out = Inr out \<and>
     np_max (map np_abs (flatten out)) = Inr (Fin 1)"
proof -
  let ?mixed = "map (\<lambda>i. (Fin (alpha_tone i), Fin (alpha_tone i))) [0..<441000]"
  have m: "mixed_audio demo_engines 10 ''alpha'' None None demo_world = (Inr ?mixed, demo_world)"
    unfolding mixed_audio_def fallback_alpha_ten by simp
  have fin: "\<forall>s \<in> set (flatten ?mixed). is_finite s"
    unfolding flatten_tone by auto
  have "(1 :: nat) \<in> set [0..<441000]" by simp
  then have "alpha_tone 1 \<in> alpha_tone ` set [0..<441000]" by (rule imageI)
  then have "Fin (alpha_tone 1) \<in> set (flatten ?mixed)"
    unfolding flatten_tone set_map set_concat_dup by (rule imageI)
  moreover have "Fin (alpha_tone 1) \<noteq> Fin 0" using alpha_tone_one_pos by simp
  ultimately have ns: "\<exists>s \<in> set (flatten ?mixed). s \<noteq> Fin 0" by blast
  from peak_normalization_idempotent [OF fin ns, of demo_engines 10 "''alpha''" None None
      demo_world demo_world] m
  obtain out where o: "normalize_stereo ?mixed = Inr out" "normalize_stereo out = Inr out"
    "np_max (map np_abs (flatten out)) = Inr (Fin 1)"
    "create_guided_meditation demo_engines 10 ''alpha'' None None demo_world =
       (Inr out, demo_world)"
    by blast
  have "?mixed \<noteq> []" by simp
  from normalize_stereo_returns [OF this] o(1) have "length out = 441000" by auto
  with m o show ?thesis by blast
qed

text \<open>
  Claim C7 as stated fails: the mix of a one-second session with the chime preset is not
  all zero, every sample of it being \<open>NaN\<close>; the session returned has \<open>NaN\<close> for its
  maximum absolute sample, not \<open>1\<close>.
\<close>

theorem not_all_zero_mix_with_NaN_peak:
  "fst (mixed_audio demo_engines 1 ''alpha'' (Some [''wind_chimes'']) None demo_world) =
     Inr (replicate 44100 (NaN, NaN)) \<and>
   replicate 44100 (NaN, NaN) \<noteq> replicate 44100 (Fin 0, Fin 0) \<and>
   fst (create_guided_meditation demo_engines 1 ''alpha'' (Some [''wind_chimes'']) None demo_world) =
     Inr (replicate 44100 (NaN, NaN)) \<and>
   np_max (map np_abs (flatten (replicate 44100 (NaN, NaN)))) = Inr NaN"
proof -
  obtain w1 where a: "create_atmos_mix demo_engines [''wind_chimes''] 1 demo_world =
      (Inr (replicate 44100 (NaN, NaN)), w1)"
    using demo_atmos_wind_chimes_one_second
    by (cases "create_atmos_mix demo_engines [''wind_chimes''] 1 demo_world") auto
  have m: "mixed_audio demo_engines 1 ''alpha'' (Some [''wind_chimes'']) None demo_world =
      (Inr (replicate 44100 (NaN, NaN)), w1)"
    by (simp add: mixed_audio_def a)
  have pos: "(0 :: nat) < 44100" by simp
  note n = normalize_stereo_all_NaN [OF pos]
  have c: "create_guided_meditation demo_engines 1 ''alpha'' (Some [''wind_chimes'']) None
      demo_world = (Inr (replicate 44100 (NaN, NaN)), w1)"
    unfolding create_guided_meditation_def m by (simp add: n(1))
  have "replicate 44100 (NaN, NaN) \<noteq> replicate 44100 (Fin 0, Fin 0)"
    by (simp add: replicate_eq_replicate)
  with m c n(2) show ?thesis by simp
qed

text \<open>
  Claim C8. When the buffer entering the final normalisation has at least one frame and
  all its samples are zero, the division is \<open>0/0\<close> on every sample: no error is raised, and
  \<^verbatim>\<open>create_guided_meditation\<close> returns a buffer of the same length whose samples are all
  \<open>NaN\<close>, which is not finite.
\<close>

theorem silent_mix_division_by_zero:
  assumes "mixed \<noteq> []" and "\<forall>f \<in> set mixed. f = (Fin 0, Fin 0)"
  shows "normalize_stereo mixed = Inr (replicate (length mixed) (NaN, NaN)) \<and>
         \<not> is_finite NaN \<and>
         (mixed_audio g dur target_state sounds custom_script w = (Inr mixed, w') \<longrightarrow>
          create_guided_meditation g dur target_state sounds custom_script w =
            (Inr (replicate (length mixed) (NaN, NaN)), w'))"
  using normalize_stereo_silent [OF assms]
  by (simp add: create_guided_meditation_def map_replicate_const)

theorem silent_mix_division_by_zero_witness:
  "mixed_audio demo_engines (1 / 44100) ''alpha'' None None demo_world =
     (Inr [(Fin 0, Fin 0)], demo_world) \<and>
   create_guided_meditation demo_engines (1 / 44100) ''alpha'' None None demo_world =
     (Inr [(NaN, NaN)], demo_world)"
  using silent_mix_division_by_zero [of "[(Fin 0, Fin 0)]" demo_engines "1 / 44100" "''alpha''"
      None None demo_world demo_world] demo_mixed_silent
  by simp

section \<open>The temporary file of the voice synthesizer\<close>

text \<open>
  Claim C3, as amended. \<^verbatim>\<open>generate_voice_guidance\<close> creates its temporary file with
  \<^verbatim>\<open>delete=False\<close> and never removes it: on every exit path (failure of the
  text-to-speech engine, failure of the decoder, normal return) the file system after the
  call is the one before it with the temporary file added; the file still exists.
\<close>

theorem temp_file_survives_call:
  "\<exists>content. files (snd (generate_voice_guidance g script w)) =
      (files w)(temp_name g w \<mapsto> content)"
  by (auto simp: generate_voice_guidance_def Let_def split: sum.splits)

text \<open>
  Claim C3 as stated fails: after a call that returns the decoded samples, the temporary
  file is still present, with the bytes the text-to-speech engine saved.
\<close>

theorem temp_file_not_deleted:
  "fst (generate_voice_guidance demo_engines ''breathe'' demo_world) =
     Inr [(Fin (- (32768 / 32767)), Fin (- (32768 / 32767))), (Fin 0, Fin 0), (Fin 1, Fin 1)] \<and>
   temp_name demo_engines demo_world = ''/tmp/tmpa1b2c3.mp3'' \<and>
   files (snd (generate_voice_guidance demo_engines ''breathe'' demo_world))
     ''/tmp/tmpa1b2c3.mp3'' = Some [73, 68, 51]"
  by (simp add: demo_voice) (simp add: demo_engines_def)

section \<open>Unknown brainwave bands\<close>

text \<open>
  Claim C2, as amended. For an unknown band identifier, \<^verbatim>\<open>create_guided_meditation\<close>
  fails with a \<^verbatim>\<open>KeyError\<close> naming the identifier when \<^verbatim>\<open>special_sounds\<close> is \<^verbatim>\<open>None\<close> or
  empty and the sample count is not negative, whatever the script. When
  \<^verbatim>\<open>special_sounds\<close> is a non-empty list the band is never looked up: the call behaves as
  it does for a known band.
\<close>

theorem unknown_band_only_fails_on_fallback_path:
  assumes "brainwave_states target_state = None"
  shows "(0 \<le> py_int (real sample_rate * dur) \<longrightarrow>
            create_guided_meditation g dur target_state None custom_script w =
              (Inl (KeyError target_state), w) \<and>
            create_guided_meditation g dur target_state (Some []) custom_script w =
              (Inl (KeyError target_state), w)) \<and>
         create_guided_meditation g dur target_state (Some (s # ss)) custom_script w =
           create_guided_meditation g dur ''alpha'' (Some (s # ss)) custom_script w"
  using fallback_tone_unknown_band [OF assms]
  by (simp add: create_guided_meditation_def mixed_audio_def)

theorem unknown_band_only_fails_on_fallback_path_witness:
  "brainwave_states ''foo'' = None \<and>
   create_guided_meditation demo_engines 10 ''foo'' None None demo_world =
     (Inl (KeyError ''foo''), demo_world) \<and>
   create_guided_meditation demo_engines 10 ''foo'' (Some [''om_chant'']) None demo_world =
     create_guided_meditation demo_engines 10 ''alpha'' (Some [''om_chant'']) None demo_world"
proof -
  have "0 \<le> py_int (real sample_rate * 10)" by (simp add: py_int_def)
  then show ?thesis
    using unknown_band_only_fails_on_fallback_path [OF unknown_band_foo, of 10 demo_engines None
        demo_world "''om_chant''" "[]"] unknown_band_foo
    by simp
qed

text \<open>
  Claim C2 as stated fails: with two special sounds supplied, a session of ten minutes for
  the unknown band \<open>foo\<close> raises no error; a buffer is returned.
\<close>

theorem unknown_band_ignored_with_special_sounds:
  "brainwave_states ''foo'' = None \<and>
   \<not> isl (fst (create_guided_meditation demo_engines 600 ''foo''
                  (Some [''crystal_bowls'', ''om_chant'']) None demo_world))"
proof -
  from demo_guided_returns [of "''foo''"] obtain out where
    "create_guided_meditation demo_engines 600 ''foo''
       (Some [''crystal_bowls'', ''om_chant'']) None demo_world = (Inr out, demo_world)"
    by blast
  then show ?thesis by (simp add: unknown_band_foo)
qed

section \<open>The length of the atmospheric mix\<close>



section \<open>The peak of a preset\<close>




section \<open>The ten-second alpha session\<close>

text \<open>
  Claim C4. \<^verbatim>\<open>create_guided_meditation(10, 'alpha', None, None)\<close> returns a stereo buffer of
  exactly \<open>10 * 44100\<close> frames. The buffer entering the normalisation is the 11 Hz sine on
  the time grid of the program, the same on both channels, with no spatial rendering; the
  returned buffer is that sine divided by its positive peak, and its maximum absolute
  sample is exactly \<open>1\<close>.
\<close>

theorem fallback_session_alpha_ten_seconds:
  "\<exists>out m. create_guided_meditation g 10 ''alpha'' None None w = (Inr out, w) \<and>
     length out = 10 * 44100 \<and> 0 < m \<and>
     (\<forall>i < 10 * 44100. out ! i = (Fin (alpha_tone i / m), Fin (alpha_tone i / m))) \<and>
     np_max (map np_abs (flatten out)) = Inr (Fin 1) \<and>
     mixed_audio g 10 ''alpha'' None None w =
       (Inr (map (\<lambda>i. (Fin (alpha_tone i), Fin (alpha_tone i))) [0..<10 * 44100]), w)"
proof -
  let ?m = "Max (abs ` alpha_tone ` {..<441000})"
  let ?out = "map (\<lambda>i. (Fin (alpha_tone i / ?m), Fin (alpha_tone i / ?m))) [0..<441000]"
  have "create_guided_meditation g 10 ''alpha'' None None w = (Inr ?out, w)"
    by (rule guided_alpha_ten(2))
  moreover have "length ?out = 10 * 44100" by simp
  moreover have "0 < ?m" by (rule guided_alpha_ten(1))
  moreover have "\<forall>i < 10 * 44100. ?out ! i = (Fin (alpha_tone i / ?m), Fin (alpha_tone i / ?m))"
    by simp
  moreover have "np_max (map np_abs (flatten ?out)) = Inr (Fin 1)"
    by (rule guided_alpha_ten(3))
  moreover have "mixed_audio g 10 ''alpha'' None None w =
      (Inr (map (\<lambda>i. (Fin (alpha_tone i), Fin (alpha_tone i))) [0..<10 * 44100]), w)"
    unfolding mixed_audio_def fallback_alpha_ten by simp
  ultimately show ?thesis by blast
qed

theorem fallback_session_alpha_ten_seconds_witness:
  "\<exists>out. create_guided_meditation demo_engines 10 ''alpha'' None None demo_world =
       (Inr out, demo_world) \<and>
     length out = 441000 \<and> out ! 0 = (Fin 0, Fin 0) \<and>
     np_max (map np_abs (flatten out)) = Inr (Fin 1)"
proof -
  from fallback_session_alpha_ten_seconds [of demo_engines demo_world] obtain out m where
    r: "create_guided_meditation demo_engines 10 ''alpha'' None None demo_world =
      (Inr out, demo_world)"
    and l: "length out = 10 * 44100"
    and a: "\<forall>i < 10 * 44100. out ! i = (Fin (alpha_tone i / m), Fin (alpha_tone i / m))"
    and p: "np_max (map np_abs (flatten out)) = Inr (Fin 1)"
    by blast
  from a have "out ! 0 = (Fin (alpha_tone 0 / m), Fin (alpha_tone 0 / m))" by simp
  then have "out ! 0 = (Fin 0, Fin 0)" by (simp add: alpha_tone_def)
  with r l p show ?thesis by simp
qed

section \<open>The movement distortion\<close>

text \<open>
  Claim C1 says that the movement loop visits every sample of the rendered signal and
  rotates each sample's channel vector by the trajectory point of that sample's time. The
  code applies the movement to the engine's array before the transpose of line 65, where
  the rows are the two microphone signals: \<^verbatim>\<open>len(audio)\<close> is \<open>2\<close>, the time grid is
  \<^verbatim>\<open>np.linspace(0, 2/44100, 2)\<close>, and the loop makes two rotations, each on a whole
  microphone signal, whatever the number of samples. For the circular pattern the
  trajectory points are \<open>(1, 0, 0)\<close> and the point of time \<open>2/44100\<close>; when the two
  rotations keep the length of their argument, the result is their two results, zipped.
\<close>

theorem movement_rotates_microphone_rows:
  assumes "room_simulate g pos a = Inr mics"
    and "rotation_apply g (1, 0, 0) (map fst mics) = Inr r0" and "length r0 = length mics"
    and "rotation_apply g (cos (2 * pi * spd * (2 / 44100)), sin (2 * pi * spd * (2 / 44100)), 0)
           (map snd mics) = Inr r1" and "length r1 = length mics"
  shows "apply_movement g [map fst mics, map snd mics]
           \<lparr>pattern = Some ''circular'', speed = Some spd\<rparr> = Inr [r0, r1] \<and>
         create_spatial_effect g (Mono a) pos
           (Some \<lparr>pattern = Some ''circular'', speed = Some spd\<rparr>) = Inr (zip r0 r1)"
proof -
  have m: "apply_movement g [map fst mics, map snd mics]
      \<lparr>pattern = Some ''circular'', speed = Some spd\<rparr> = Inr [r0, r1]"
    by (rule movement_two_rows [OF assms(2) _ assms(4)]) (simp_all add: assms(3,5))
  have "map fst (column_stack2 a) = a" by (simp add: column_stack2_def comp_def)
  then have "create_spatial_effect g (Mono a) pos
      (Some \<lparr>pattern = Some ''circular'', speed = Some spd\<rparr>) = Inr (zip r0 r1)"
    by (simp add: create_spatial_effect_def assms(1) m transpose2_def)
  with m show ?thesis by (rule conjI)
qed

theorem movement_rotates_microphone_rows_witness:
  "apply_movement demo_engines [[Fin 1, Fin 2, Fin 3], [Fin 1, Fin 2, Fin 3]]
     \<lparr>pattern = Some ''circular'', speed = Some 0.2\<rparr> =
     Inr [[Fin 1, Fin 2, Fin 3], [Fin 1, Fin 2, Fin 3]] \<and>
   create_spatial_effect demo_engines (Mono [Fin 1, Fin 2, Fin 3]) (2.5, 0, 1.5)
     (Some \<lparr>pattern = Some ''circular'', speed = Some 0.2\<rparr>) =
     Inr [(Fin 1, Fin 1), (Fin 2, Fin 2), (Fin 3, Fin 3)]"
  using movement_rotates_microphone_rows [of demo_engines "(2.5, 0, 1.5)" "[Fin 1, Fin 2, Fin 3]"
      "[(Fin 1, Fin 1), (Fin 2, Fin 2), (Fin 3, Fin 3)]" "[Fin 1, Fin 2, Fin 3]" "0.2"
      "[Fin 1, Fin 2, Fin 3]"]
  by (simp add: demo_room demo_rotation)

end
